theory Spec2Isabelle
  imports Complex_Main
begin

section \<open>Python values and exceptions\<close>

text \<open>
  The three scripts handle what \<^verbatim>\<open>json.loads\<close> returns: \<^verbatim>\<open>None\<close>, booleans, numbers,
  strings, lists and dicts. A dict is kept as the association list of its items. Strings are lists of characters with code points below 256.
  A float is kept by its value; the decoder's \<^verbatim>\<open>NaN\<close> and infinities are not represented.
\<close>

datatype json =
    JNull
  | JBool bool
  | JInt int
  | JFloat real
  | JStr string
  | JArr "json list"
  | JObj "(string \<times> json) list"

datatype exc_class =
    ValueError
  | JSONDecodeError
  | OSError
  | FileNotFoundError
  | EOFError
  | AttributeError
  | TypeError
  | RequestException
  | LocationParseError

text \<open>
  An exception object: its class, as the handlers tell classes apart (a subclass of
  \<^verbatim>\<open>requests.exceptions.RequestException\<close> counts as that class; \<^verbatim>\<open>LocationParseError\<close> is
  urllib3's and is not one), and the text \<^verbatim>\<open>str(e)\<close> gives.
\<close>

datatype py_exc = PyExc (exc_class: exc_class) (str_exc: string)

fun type_name :: "json \<Rightarrow> string" where
  "type_name JNull = ''NoneType''"
| "type_name (JBool _) = ''bool''"
| "type_name (JInt _) = ''int''"
| "type_name (JFloat _) = ''float''"
| "type_name (JStr _) = ''str''"
| "type_name (JArr _) = ''list''"
| "type_name (JObj _) = ''dict''"

text \<open>Truth value of an object, as \<^verbatim>\<open>not users\<close> tests it.\<close>

fun truthy :: "json \<Rightarrow> bool" where
  "truthy JNull = False"
| "truthy (JBool b) = b"
| "truthy (JInt i) = (i \<noteq> 0)"
| "truthy (JFloat x) = (x \<noteq> 0)"
| "truthy (JStr s) = (s \<noteq> [])"
| "truthy (JArr xs) = (xs \<noteq> [])"
| "truthy (JObj kvs) = (kvs \<noteq> [])"

text \<open>\<^verbatim>\<open>len(x)\<close>: defined on strings, lists and dicts; a \<^verbatim>\<open>TypeError\<close> elsewhere.\<close>

fun py_len :: "json \<Rightarrow> py_exc + nat" where
  "py_len (JStr s) = Inr (length s)"
| "py_len (JArr xs) = Inr (length xs)"
| "py_len (JObj kvs) = Inr (length kvs)"
| "py_len v = Inl (PyExc TypeError (''object of type '' @ [CHR 0x27] @ type_name v @ [CHR 0x27] @ '' has no len()''))"

text \<open>
  \<^verbatim>\<open>for user in users\<close>: a list yields its elements, a dict its keys, a string its
  characters; nothing else can be iterated.
\<close>

fun py_iter :: "json \<Rightarrow> py_exc + json list" where
  "py_iter (JArr xs) = Inr xs"
| "py_iter (JObj kvs) = Inr (map (\<lambda>kv. JStr (fst kv)) kvs)"
| "py_iter (JStr s) = Inr (map (\<lambda>c. JStr [c]) s)"
| "py_iter v = Inl (PyExc TypeError ([CHR 0x27] @ type_name v @ [CHR 0x27] @ '' object is not iterable''))"

text \<open>\<^verbatim>\<open>user.get(key, default)\<close>: only a dict has the method.\<close>

fun py_get :: "json \<Rightarrow> string \<Rightarrow> json \<Rightarrow> py_exc + json" where
  "py_get (JObj kvs) k d = Inr (case map_of kvs k of None \<Rightarrow> d | Some v \<Rightarrow> v)"
| "py_get v k d = Inl (PyExc AttributeError
     ([CHR 0x27] @ type_name v @ [CHR 0x27] @ '' object has no attribute '' @ [CHR 0x27] @ ''get'' @ [CHR 0x27]))"

text \<open>
  \<^verbatim>\<open>x in S\<close> for a set \<open>S\<close> of strings: the object is hashed first, which a list or a
  dict refuses; after that only an equal string is a member.
\<close>

fun py_in :: "json \<Rightarrow> string list \<Rightarrow> py_exc + bool" where
  "py_in (JStr s) S = Inr (s \<in> set S)"
| "py_in (JArr xs) S = Inl (PyExc TypeError (''unhashable type: '' @ [CHR 0x27] @ ''list'' @ [CHR 0x27]))"
| "py_in (JObj kvs) S = Inl (PyExc TypeError (''unhashable type: '' @ [CHR 0x27] @ ''dict'' @ [CHR 0x27]))"
| "py_in v S = Inr False"

text \<open>\<^verbatim>\<open>str(n)\<close> for an integer: decimal digits, with a minus sign below zero.\<close>

fun str_nat :: "nat \<Rightarrow> string" where
  "str_nat n = (if n < 10 then [''0123456789'' ! n]
                else str_nat (n div 10) @ [''0123456789'' ! (n mod 10)])"

declare str_nat.simps [simp del]

definition str_int :: "int \<Rightarrow> string" where
  "str_int i = (if i < 0 then ''-'' @ str_nat (nat (- i)) else str_nat (nat i))"

section \<open>License monitor: the classifier\<close>

text \<open>
  \<^verbatim>\<open>1password_license_monitor.py\<close>, \<^verbatim>\<open>count_active_licenses\<close>:
  \<^verbatim>\<open>active_states = {"ACTIVE", "RECOVERY_STARTED"}\<close> and
  \<^verbatim>\<open>sum(1 for user in users if user.get("state") in active_states)\<close>.
  The generator is consumed from the left; the first element that raises ends the sum.
\<close>

definition active_states :: "string list" where
  "active_states = [''ACTIVE'', ''RECOVERY_STARTED'']"

fun sum_active :: "json list \<Rightarrow> int \<Rightarrow> py_exc + int" where
  "sum_active [] acc = Inr acc"
| "sum_active (user # rest) acc =
     (case py_get user ''state'' JNull of
        Inl e \<Rightarrow> Inl e
      | Inr st \<Rightarrow>
          (case py_in st active_states of
             Inl e \<Rightarrow> Inl e
           | Inr b \<Rightarrow> sum_active rest (if b then acc + 1 else acc)))"

definition count_active_licenses :: "json \<Rightarrow> py_exc + int" where
  "count_active_licenses users =
     (case py_iter users of Inl e \<Rightarrow> Inl e | Inr us \<Rightarrow> sum_active us 0)"

section \<open>The world of a run\<close>

text \<open>
  What a script meets outside itself. The text on standard output of the \<^verbatim>\<open>op\<close> command
  enters a script only through \<^verbatim>\<open>json.loads\<close>, so it is kept by what the decoder makes of
  it: a \<^verbatim>\<open>JSONDecodeError\<close> with its message, or the decoded value.
\<close>

datatype stdout = Malformed string | Decodes json

text \<open>
  The \<^verbatim>\<open>op\<close> process: it cannot be started (the exception \<^verbatim>\<open>subprocess.run\<close> raises
  then, a \<^verbatim>\<open>FileNotFoundError\<close> when the tool is not installed), or it exits with a
  return code, its standard output and its standard error.
\<close>

datatype proc = NotStarted py_exc | Exited int stdout string

text \<open>
  What can be raised inside \<^verbatim>\<open>fetch_users\<close>: \<^verbatim>\<open>subprocess.CalledProcessError\<close>, which
  has a handler of its own and carries the return code and \<^verbatim>\<open>stderr\<close>, or any other
  exception.
\<close>

datatype raised = CalledProcessError int string | Exc py_exc

datatype event =
    Print string
  | Prompt string
  | RunOp "string list"
  | HttpPost "string option" json

text \<open>
  \<^item> \<open>environ\<close>: the process environment;
  \<^item> \<open>keyboard\<close>: the line \<^verbatim>\<open>input()\<close> reads, \<open>None\<close> at end of input;
  \<^item> \<open>files\<close>: the regular files by path, each with what opening and reading it as text
    gives: an exception or the contents;
  \<^item> \<open>op_cli\<close>: what running \<^verbatim>\<open>op user list --format json\<close> does;
  \<^item> \<open>csv_open\<close>: the exception \<^verbatim>\<open>open(OUTPUT_CSV, mode="w")\<close> raises, if any;
  \<^item> \<open>csv_file\<close>: the file at \<^verbatim>\<open>OUTPUT_CSV\<close>, \<open>None\<close> while it does not exist, otherwise
    the rows handed to the \<^verbatim>\<open>csv\<close> writer (the text of a row is the \<^verbatim>\<open>csv\<close> module's
    business). A run reads files only before it writes this one;
  \<^item> \<open>webhook\<close>: what \<^verbatim>\<open>requests.post\<close> and \<^verbatim>\<open>raise_for_status\<close> do: \<open>None\<close> when both
    return, otherwise the exception raised, a \<^verbatim>\<open>RequestException\<close> or not;
  \<^item> \<open>trace\<close>: what the run has printed, prompted, executed and posted, in order.
\<close>

record world =
  environ :: "string \<rightharpoonup> string"
  keyboard :: "string option"
  files :: "string \<rightharpoonup> (py_exc + string)"
  op_cli :: proc
  csv_open :: "py_exc option"
  csv_file :: "json list list option"
  webhook :: "py_exc option"
  trace :: "event list"

definition emit :: "event \<Rightarrow> world \<Rightarrow> world" where
  "emit ev w = w\<lparr>trace := trace w @ [ev]\<rparr>"

text \<open>\<^verbatim>\<open>not os.getenv(name)\<close>: the variable is unset or holds the empty string.\<close>

definition env_missing :: "world \<Rightarrow> string \<Rightarrow> bool" where
  "env_missing w name = (case environ w name of None \<Rightarrow> True | Some v \<Rightarrow> v = [])"

definition op_argv :: "string list" where
  "op_argv = [''op'', ''user'', ''list'', ''--format'', ''json'']"

text \<open>\<^verbatim>\<open>subprocess.run(..., check=True, ...)\<close>: a non-zero return code is raised.\<close>

definition subprocess_run :: "proc \<Rightarrow> raised + stdout" where
  "subprocess_run p =
     (case p of
        NotStarted e \<Rightarrow> Inl (Exc e)
      | Exited rc out err \<Rightarrow> if rc \<noteq> 0 then Inl (CalledProcessError rc err) else Inr out)"

definition json_loads :: "stdout \<Rightarrow> raised + json" where
  "json_loads out =
     (case out of
        Malformed msg \<Rightarrow> Inl (Exc (PyExc JSONDecodeError msg))
      | Decodes v \<Rightarrow> Inr v)"

section \<open>Fetching the users\<close>

text \<open>
  \<^verbatim>\<open>1password_export_users.py\<close> and \<^verbatim>\<open>1password_export_users_prompt.py\<close>, \<^verbatim>\<open>fetch_users\<close>
  (the same text in both). First the body of the \<^verbatim>\<open>try\<close>, then the two handlers.
\<close>

definition fetch_users_try :: "world \<Rightarrow> (raised + json) \<times> world" where
  "fetch_users_try w =
     (if env_missing w ''OP_SERVICE_ACCOUNT_TOKEN''
      then (Inl (Exc (PyExc ValueError ''OP_SERVICE_ACCOUNT_TOKEN environment variable is not set.'')), w)
      else
        let w1 = emit (Print ''Fetching list of users from 1Password...'') w;
            w2 = emit (RunOp op_argv) w1
        in (case subprocess_run (op_cli w2) of
              Inl r \<Rightarrow> (Inl r, w2)
            | Inr out \<Rightarrow> (json_loads out, w2)))"

definition fetch_users :: "world \<Rightarrow> json \<times> world" where
  "fetch_users w =
     (case fetch_users_try w of
        (Inr users, w') \<Rightarrow> (users, w')
      | (Inl (CalledProcessError rc err), w') \<Rightarrow>
          (JArr [], emit (Print (''Error running 'op' command: '' @ err)) w')
      | (Inl (Exc ex), w') \<Rightarrow>
          (JArr [], emit (Print (''Error: '' @ str_exc ex)) w'))"

text \<open>
  \<^verbatim>\<open>1password_license_monitor.py\<close>, \<^verbatim>\<open>fetch_users\<close>: no look at the environment, and a
  handler for \<^verbatim>\<open>CalledProcessError\<close> only; any other exception leaves the function.
\<close>

definition fetch_users_monitor_try :: "world \<Rightarrow> (raised + json) \<times> world" where
  "fetch_users_monitor_try w =
     (let w1 = emit (Print ''Fetching list of users from 1Password...'') w;
          w2 = emit (RunOp op_argv) w1
      in (case subprocess_run (op_cli w2) of
            Inl r \<Rightarrow> (Inl r, w2)
          | Inr out \<Rightarrow> (json_loads out, w2)))"

definition fetch_users_monitor :: "world \<Rightarrow> (py_exc + json) \<times> world" where
  "fetch_users_monitor w =
     (case fetch_users_monitor_try w of
        (Inr users, w') \<Rightarrow> (Inr users, w')
      | (Inl (CalledProcessError rc err), w') \<Rightarrow>
          (Inr (JArr []),
           emit (Print (''Error running 'op' command: '' @ err)) w')
      | (Inl (Exc ex), w') \<Rightarrow> (Inl ex, w'))"

section \<open>Exporting to CSV\<close>

text \<open>
  \<^verbatim>\<open>export_to_csv\<close> (the same text in both export scripts). The dict handed to
  \<^verbatim>\<open>writer.writerow\<close> is built first, field by field; the writer then lays its values out
  in the order of the headers.
\<close>

definition OUTPUT_CSV :: string where
  "OUTPUT_CSV = ''1password_team_users.csv''"

definition headers :: "json list" where
  "headers = [JStr ''ID'', JStr ''Email'', JStr ''Name'', JStr ''State'']"

definition user_row :: "json \<Rightarrow> py_exc + json list" where
  "user_row user =
     (case py_get user ''id'' (JStr []) of
        Inl e \<Rightarrow> Inl e
      | Inr i \<Rightarrow>
     (case py_get user ''email'' (JStr []) of
        Inl e \<Rightarrow> Inl e
      | Inr m \<Rightarrow>
     (case py_get user ''name'' (JStr []) of
        Inl e \<Rightarrow> Inl e
      | Inr n \<Rightarrow>
     (case py_get user ''state'' (JStr []) of
        Inl e \<Rightarrow> Inl e
      | Inr s \<Rightarrow> Inr [i, m, n, s]))))"

text \<open>The \<^verbatim>\<open>for\<close> loop over the users: rows are appended until a user raises.\<close>

fun write_rows :: "json list \<Rightarrow> json list list \<Rightarrow> py_exc option \<times> json list list" where
  "write_rows [] rows = (None, rows)"
| "write_rows (user # rest) rows =
     (case user_row user of
        Inl e \<Rightarrow> (Some e, rows)
      | Inr row \<Rightarrow> write_rows rest (rows @ [row]))"

text \<open>
  The body of the \<^verbatim>\<open>try\<close>: opening the file for writing empties it, the header is
  written, then the rows. What is written stays when an exception ends the block.
\<close>

definition export_try :: "json \<Rightarrow> world \<Rightarrow> py_exc option \<times> world" where
  "export_try users w =
     (case csv_open w of
        Some e \<Rightarrow> (Some e, w)
      | None \<Rightarrow>
          (case py_iter users of
             Inl e \<Rightarrow> (Some e, w\<lparr>csv_file := Some [headers]\<rparr>)
           | Inr us \<Rightarrow>
               (case write_rows us [headers] of
                  (r, rows) \<Rightarrow> (r, w\<lparr>csv_file := Some rows\<rparr>))))"

definition export_to_csv :: "json \<Rightarrow> world \<Rightarrow> py_exc option \<times> world" where
  "export_to_csv users w =
     (if \<not> truthy users then (None, emit (Print ''No users found to export.'') w)
      else
        (case py_len users of
           Inl e \<Rightarrow> (Some e, w)
         | Inr n \<Rightarrow>
             let w1 = emit (Print (''Exporting '' @ str_int (int n) @ '' users to '' @ OUTPUT_CSV @ ''...'')) w
             in (case export_try users w1 of
                   (None, w2) \<Rightarrow>
                     (None, emit (Print (''Successfully exported users to '' @ OUTPUT_CSV @ ''.'')) w2)
                 | (Some e, w2) \<Rightarrow>
                     (None, emit (Print (''Error writing to CSV: '' @ str_exc e)) w2))))"

text \<open>\<^verbatim>\<open>1password_export_users.py\<close>, \<^verbatim>\<open>main\<close>: the result is the exception that ends it, if any.\<close>

definition main_export :: "world \<Rightarrow> py_exc option \<times> world" where
  "main_export w = (case fetch_users w of (users, w1) \<Rightarrow> export_to_csv users w1)"

section \<open>The interactive variant\<close>

text \<open>
  \<^verbatim>\<open>str.strip()\<close> removes from both ends the characters for which \<^verbatim>\<open>str.isspace()\<close> holds.
  Below 256 these are the code points 9 to 13, 28 to 32, 133 and 160.
\<close>

definition isspace :: "char \<Rightarrow> bool" where
  "isspace c =
     (let n = (of_char c :: nat)
      in (9 \<le> n \<and> n \<le> 13) \<or> (28 \<le> n \<and> n \<le> 32) \<or> n = 133 \<or> n = 160)"

definition strip :: "string \<Rightarrow> string" where
  "strip s = rev (dropWhile isspace (rev (dropWhile isspace s)))"

text \<open>
  \<^verbatim>\<open>1password_export_users_prompt.py\<close>, \<^verbatim>\<open>get_token_from_file\<close>. The assignment to
  \<^verbatim>\<open>os.environ\<close> refuses a value that holds a NUL character: it raises \<^verbatim>\<open>ValueError\<close> and
  stores nothing.
\<close>

definition get_token_from_file :: "world \<Rightarrow> py_exc option \<times> world" where
  "get_token_from_file w =
     (let w1 = emit (Prompt ''Please enter the full path to your 1Password Service Account Token file: '') w
      in (case keyboard w1 of
            None \<Rightarrow> (Some (PyExc EOFError ''EOF when reading a line''), w1)
          | Some line \<Rightarrow>
              let token_path = strip line
              in (case files w1 token_path of
                    None \<Rightarrow>
                      (Some (PyExc FileNotFoundError (''Token file not found at '' @ token_path)), w1)
                  | Some (Inl e) \<Rightarrow> (Some e, w1)
                  | Some (Inr contents) \<Rightarrow>
                      let token = strip contents
                      in if CHR 0x00 \<in> set token
                         then (Some (PyExc ValueError ''embedded null byte''), w1)
                         else
                           let w2 = w1\<lparr>environ := (environ w1)(''OP_SERVICE_ACCOUNT_TOKEN'' \<mapsto> token)\<rparr>
                           in (None, emit (Print ''Token has been set from the provided file.'') w2))))"

text \<open>
  \<^verbatim>\<open>1password_export_users_prompt.py\<close>, \<^verbatim>\<open>main\<close>: one \<^verbatim>\<open>try\<close> around the three steps, and
  a handler that prints whatever was raised.
\<close>

definition main_prompt_try :: "world \<Rightarrow> py_exc option \<times> world" where
  "main_prompt_try w =
     (case get_token_from_file w of
        (Some e, w1) \<Rightarrow> (Some e, w1)
      | (None, w1) \<Rightarrow>
          (case fetch_users w1 of (users, w2) \<Rightarrow> export_to_csv users w2))"

definition main_prompt :: "world \<Rightarrow> world" where
  "main_prompt w =
     (case main_prompt_try w of
        (None, w') \<Rightarrow> w'
      | (Some e, w') \<Rightarrow> emit (Print (''An error occurred: '' @ str_exc e)) w')"

section \<open>License monitor: the notifier and the main function\<close>

definition TOTAL_LICENSES :: int where
  "TOTAL_LICENSES = 3000"

text \<open>
  \<^verbatim>\<open>send_slack_notification\<close>, the choice of the message (lines 85 to 100), then the
  payload and the POST. \<^verbatim>\<open>SLACK_WEBHOOK_URL\<close> is what the environment held for it when the
  module was loaded; the monitor never changes the environment.
\<close>

definition license_message :: "int \<Rightarrow> int \<Rightarrow> string" where
  "license_message used_licenses total_licenses =
     (if used_licenses > total_licenses
      then '':rotating_light::1password: *1Password License Alert* :1password::rotating_light:\<newline>\<newline>'' @
           ''Used Licenses: '' @ str_int used_licenses @ ''\<newline>'' @
           ''Total Licenses**: '' @ str_int total_licenses @ ''\<newline>'' @
           ''Overage: '' @ str_int (used_licenses - total_licenses) @ ''\<newline>\<newline>'' @
           ''*Immediate action required to resolve the overage.*''
      else '':1password: *1Password License Report* :1password:\<newline>\<newline>'' @
           ''Used Licenses: '' @ str_int used_licenses @ ''\<newline>'' @
           ''Total Licenses: '' @ str_int total_licenses @ ''\<newline>'' @
           ''Available Licenses: '' @ str_int (total_licenses - used_licenses) @ ''\<newline>\<newline>'' @
           ''*All licenses are within the allocated limit.*'')"

text \<open>
  The handler is for \<^verbatim>\<open>requests.exceptions.RequestException\<close> only: any other exception
  leaves the function, after the POST and with nothing printed.
\<close>

definition send_slack_notification :: "int \<Rightarrow> int \<Rightarrow> world \<Rightarrow> py_exc option \<times> world" where
  "send_slack_notification used_licenses total_licenses w =
     (let payload = JObj [(''text'', JStr (license_message used_licenses total_licenses))];
          w1 = emit (HttpPost (environ w ''SLACK_WEBHOOK_URL'') payload) w
      in (case webhook w1 of
            None \<Rightarrow> (None, emit (Print ''Slack notification sent successfully.'') w1)
          | Some e \<Rightarrow>
              if exc_class e = RequestException
              then (None, emit (Print (''Error sending Slack notification: '' @ str_exc e)) w1)
              else (Some e, w1)))"

text \<open>\<^verbatim>\<open>1password_license_monitor.py\<close>, \<^verbatim>\<open>main\<close>: the result is the exception that ends it, if any.\<close>

definition main_monitor :: "world \<Rightarrow> py_exc option \<times> world" where
  "main_monitor w =
     (case fetch_users_monitor w of
        (Inl e, w1) \<Rightarrow> (Some e, w1)
      | (Inr users, w1) \<Rightarrow>
          if \<not> truthy users then (None, emit (Print ''No users fetched. Exiting.'') w1)
          else
            (case count_active_licenses users of
               Inl e \<Rightarrow> (Some e, w1)
             | Inr used_licenses \<Rightarrow>
                 let w2 = emit (Print (''Used Licenses: '' @ str_int used_licenses @ ''/'' @
                                       str_int TOTAL_LICENSES)) w1
                 in send_slack_notification used_licenses TOTAL_LICENSES w2))"

section \<open>The vocabulary of the properties\<close>

text \<open>
  A user record, as the \<^verbatim>\<open>op\<close> command lists it: a dict whose identifier, email, name and
  state, where present, are strings.
\<close>

definition is_str :: "json \<Rightarrow> bool" where
  "is_str v = (case v of JStr _ \<Rightarrow> True | _ \<Rightarrow> False)"

definition user_record :: "json \<Rightarrow> bool" where
  "user_record u =
     (case u of
        JObj kvs \<Rightarrow>
          list_all (\<lambda>k. case map_of kvs k of None \<Rightarrow> True | Some v \<Rightarrow> is_str v)
            [''id'', ''email'', ''name'', ''state'']
      | _ \<Rightarrow> False)"

text \<open>The record's state is exactly one of the two countable values.\<close>

definition counts_as_used :: "json \<Rightarrow> bool" where
  "counts_as_used u =
     (case u of
        JObj kvs \<Rightarrow>
          map_of kvs ''state'' = Some (JStr ''ACTIVE'') \<or>
          map_of kvs ''state'' = Some (JStr ''RECOVERY_STARTED'')
      | _ \<Rightarrow> False)"

text \<open>The text of a record's field; the empty string when the record has no such field.\<close>

definition field_text :: "json \<Rightarrow> string \<Rightarrow> string" where
  "field_text u k =
     (case u of
        JObj kvs \<Rightarrow> (case map_of kvs k of Some (JStr s) \<Rightarrow> s | _ \<Rightarrow> [])
      | _ \<Rightarrow> [])"

definition csv_table :: "json list \<Rightarrow> string list list" where
  "csv_table users =
     [''ID'', ''Email'', ''Name'', ''State''] #
     map (\<lambda>u. [field_text u ''id'', field_text u ''email'', field_text u ''name'', field_text u ''state'']) users"

text \<open>
  Reading a decimal numeral: the number a text denotes when it is a numeral in the one way
  a number is written, that is digits with no leading zero (the single \<^verbatim>\<open>0\<close> apart),
  after a minus sign for a number below zero; nothing otherwise.
\<close>

definition digit_of :: "char \<Rightarrow> nat option" where
  "digit_of c =
     (let n = (of_char c :: nat) in if 48 \<le> n \<and> n \<le> 57 then Some (n - 48) else None)"

fun read_digits :: "string \<Rightarrow> nat \<Rightarrow> nat option" where
  "read_digits [] acc = Some acc"
| "read_digits (c # cs) acc =
     (case digit_of c of None \<Rightarrow> None | Some d \<Rightarrow> read_digits cs (10 * acc + d))"

definition read_nat :: "string \<Rightarrow> nat option" where
  "read_nat s =
     (case s of
        [] \<Rightarrow> None
      | c # cs \<Rightarrow> if c = CHR ''0'' \<and> cs \<noteq> [] then None else read_digits s 0)"

definition read_int :: "string \<Rightarrow> int option" where
  "read_int s =
     (case s of
        [] \<Rightarrow> None
      | c # cs \<Rightarrow>
          if c = CHR ''-''
          then (case read_nat cs of
                  None \<Rightarrow> None
                | Some n \<Rightarrow> if n = 0 then None else Some (- int n))
          else map_option int (read_nat s))"

text \<open>
  The two message variants of the notifier, each around the three numerals it reports:
  used, total, and the overage or the headroom.
\<close>

definition overage_variant :: "string \<Rightarrow> string \<Rightarrow> string \<Rightarrow> string" where
  "overage_variant used_text total_text overage_text =
     '':rotating_light::1password: *1Password License Alert* :1password::rotating_light:\<newline>\<newline>'' @
     ''Used Licenses: '' @ used_text @ ''\<newline>'' @
     ''Total Licenses**: '' @ total_text @ ''\<newline>'' @
     ''Overage: '' @ overage_text @ ''\<newline>\<newline>'' @
     ''*Immediate action required to resolve the overage.*''"

definition within_limit_variant :: "string \<Rightarrow> string \<Rightarrow> string \<Rightarrow> string" where
  "within_limit_variant used_text total_text headroom_text =
     '':1password: *1Password License Report* :1password:\<newline>\<newline>'' @
     ''Used Licenses: '' @ used_text @ ''\<newline>'' @
     ''Total Licenses: '' @ total_text @ ''\<newline>'' @
     ''Available Licenses: '' @ headroom_text @ ''\<newline>\<newline>'' @
     ''*All licenses are within the allocated limit.*''"

text \<open>What a step added to the trace of the world it started from.\<close>

definition new_events :: "world \<Rightarrow> world \<Rightarrow> event list" where
  "new_events w w' = drop (length (trace w)) (trace w')"

definition is_post :: "event \<Rightarrow> bool" where
  "is_post ev = (case ev of HttpPost _ _ \<Rightarrow> True | _ \<Rightarrow> False)"

definition is_run :: "event \<Rightarrow> bool" where
  "is_run ev = (case ev of RunOp _ \<Rightarrow> True | _ \<Rightarrow> False)"

subsection \<open>Sample inputs\<close>

definition sample_users :: "json list" where
  "sample_users =
     [JObj [(''id'', JStr ''1''), (''email'', JStr ''a@x.com''), (''name'', JStr ''A''), (''state'', JStr ''ACTIVE'')],
      JObj [(''id'', JStr ''2''), (''state'', JStr ''active'')],
      JObj [(''id'', JStr ''3''), (''state'', JStr ''RECOVERY_STARTED'')],
      JObj [(''id'', JStr ''4''), (''state'', JStr ''SUSPENDED'')],
      JObj [(''id'', JStr ''5'')]]"

text \<open>
  A world where everything works: the credential and the webhook address are in the
  environment, the \<^verbatim>\<open>op\<close> command lists the sample users, the output file can be opened
  and the webhook answers.
\<close>

definition sample_world :: world where
  "sample_world =
     \<lparr>environ = [''OP_SERVICE_ACCOUNT_TOKEN'' \<mapsto> ''ops_token'',
                 ''SLACK_WEBHOOK_URL'' \<mapsto> ''https://hooks.slack.com/services/T0/B0/X''],
      keyboard = None, files = Map.empty,
      op_cli = Exited 0 (Decodes (JArr sample_users)) [],
      csv_open = None, csv_file = None, webhook = None, trace = []\<rparr>"

text \<open>The \<^verbatim>\<open>op\<close> command exits with code 0 and prints nothing: no JSON to decode.\<close>

definition no_output_world :: world where
  "no_output_world =
     sample_world\<lparr>op_cli := Exited 0 (Malformed ''Expecting value: line 1 column 1 (char 0)'') []\<rparr>"

text \<open>No credential in the environment; the \<^verbatim>\<open>op\<close> command, if run, fails.\<close>

definition no_token_world :: world where
  "no_token_world =
     sample_world\<lparr>environ := [''SLACK_WEBHOOK_URL'' \<mapsto> ''https://hooks.slack.com/services/T0/B0/X''],
       op_cli := Exited 1 (Malformed ''Expecting value: line 1 column 1 (char 0)'') ''[ERROR] not signed in''\<rparr>"

text \<open>The interactive variant: a path is typed, with or without a token file behind it.\<close>

definition typed_world :: world where
  "typed_world = sample_world\<lparr>environ := Map.empty, keyboard := Some '' /tmp/token ''\<rparr>"



text \<open>The webhook call raises an exception that is not a \<^verbatim>\<open>RequestException\<close>.\<close>

definition bad_url_world :: world where
  "bad_url_world =
     sample_world\<lparr>webhook := Some (PyExc LocationParseError ''Failed to parse: https://[''),
       environ := [''SLACK_WEBHOOK_URL'' \<mapsto> ''https://['']\<rparr>"

section \<open>Lemmas\<close>

lemma trace_emit [simp]: "trace (emit ev w) = trace w @ [ev]"
  by (simp add: emit_def)

lemma emit_fields [simp]:
  "environ (emit ev w) = environ w"
  "keyboard (emit ev w) = keyboard w"
  "files (emit ev w) = files w"
  "op_cli (emit ev w) = op_cli w"
  "csv_open (emit ev w) = csv_open w"
  "csv_file (emit ev w) = csv_file w"
  "webhook (emit ev w) = webhook w"
  by (simp_all add: emit_def)

lemma new_events_append [simp]: "trace w' = trace w @ evs \<Longrightarrow> new_events w w' = evs"
  by (simp add: new_events_def)

subsection \<open>The classifier\<close>

lemma user_record_step:
  assumes "user_record u"
  shows "sum_active (u # rest) acc = sum_active rest (if counts_as_used u then acc + 1 else acc)"
proof -
  from assms obtain kvs where u: "u = JObj kvs"
    by (cases u) (simp_all add: user_record_def)
  show ?thesis
  proof (cases "map_of kvs ''state''")
    case None
    then show ?thesis by (simp add: u counts_as_used_def)
  next
    case (Some v)
    with assms u obtain s where v: "v = JStr s"
      by (cases v) (simp_all add: user_record_def is_str_def)
    show ?thesis
      by (auto simp add: u Some v counts_as_used_def active_states_def)
  qed
qed

lemma sum_active_records:
  "list_all user_record us \<Longrightarrow>
   sum_active us acc = Inr (acc + int (length (filter counts_as_used us)))"
proof (induction us arbitrary: acc)
  case Nil
  then show ?case by simp
next
  case (Cons u us)
  then have "user_record u" and "list_all user_record us" by simp_all
  then show ?case
    using Cons.IH by (simp add: user_record_step del: sum_active.simps)
qed

lemma sum_active_bounds:
  "sum_active us acc = Inr n \<Longrightarrow> acc \<le> n \<and> n \<le> acc + int (length us)"
proof (induction us arbitrary: acc)
  case Nil
  then show ?case by simp
next
  case (Cons u us)
  from Cons.prems obtain b where "sum_active us (if b then acc + 1 else acc) = Inr n"
    by (auto split: sum.splits)
  from Cons.IH [OF this] show ?case by (cases b) simp_all
qed

lemma sum_active_skip:
  "map_of kvs ''state'' = None \<Longrightarrow>
   sum_active (xs @ JObj kvs # ys) acc = sum_active (xs @ ys) acc"
  by (induction xs arbitrary: acc) (simp_all add: active_states_def split: sum.splits)

text \<open>
  Outside the user records the sum can raise: an element that is not a dict has no
  \<^verbatim>\<open>get\<close>, and a state that is a list or a dict cannot be hashed.
\<close>

lemma count_active_licenses_raises:
  "\<exists>msg. count_active_licenses (JArr [JStr ''ACTIVE'']) = Inl (PyExc AttributeError msg)"
  "\<exists>msg. count_active_licenses (JArr [JObj [(''state'', JArr [])]]) = Inl (PyExc TypeError msg)"
  by (simp_all add: count_active_licenses_def active_states_def)

text \<open>Only a non-empty list passes both the truth test and the count.\<close>

lemma count_truthy_list:
  assumes "count_active_licenses users = Inr n" and "truthy users"
  shows "\<exists>u us. users = JArr (u # us)"
proof (cases users)
  case (JArr xs)
  with assms(2) show ?thesis by (cases xs) simp_all
next
  case (JObj kvs)
  with assms(2) obtain kv rest where "kvs = kv # rest" by (cases kvs) simp_all
  with assms(1) JObj show ?thesis by (simp add: count_active_licenses_def)
next
  case (JStr s)
  with assms(2) obtain c rest where "s = c # rest" by (cases s) simp_all
  with assms(1) JStr show ?thesis by (simp add: count_active_licenses_def)
qed (use assms in \<open>simp_all add: count_active_licenses_def\<close>)

subsection \<open>The notifier\<close>

lemma str_int_examples:
  "str_int 0 = ''0''" "str_int 3000 = ''3000''" "str_int (- 25) = ''-25''"
  by (simp_all add: str_int_def str_nat.simps)

lemma license_message_examples:
  "license_message 5 3 =
     '':rotating_light::1password: *1Password License Alert* :1password::rotating_light:\<newline>\<newline>Used Licenses: 5\<newline>Total Licenses**: 3\<newline>Overage: 2\<newline>\<newline>*Immediate action required to resolve the overage.*''"
  "license_message 3 3 =
     '':1password: *1Password License Report* :1password:\<newline>\<newline>Used Licenses: 3\<newline>Total Licenses: 3\<newline>Available Licenses: 0\<newline>\<newline>*All licenses are within the allocated limit.*''"
  by (simp_all add: license_message_def str_int_def str_nat.simps)

lemma trace_send_slack_notification:
  "trace (snd (send_slack_notification u t w)) =
     trace w @
     HttpPost (environ w ''SLACK_WEBHOOK_URL'') (JObj [(''text'', JStr (license_message u t))]) #
     (case webhook w of
        None \<Rightarrow> [Print ''Slack notification sent successfully.'']
      | Some e \<Rightarrow>
          if exc_class e = RequestException
          then [Print (''Error sending Slack notification: '' @ str_exc e)]
          else [])"
  by (simp add: send_slack_notification_def Let_def split: option.splits)

lemma fst_send_slack_notification:
  "fst (send_slack_notification u t w) =
     (case webhook w of
        None \<Rightarrow> None
      | Some e \<Rightarrow> if exc_class e = RequestException then None else Some e)"
  by (simp add: send_slack_notification_def Let_def split: option.splits)

lemma variants_differ: "overage_variant a b c \<noteq> within_limit_variant a' b' c'"
  by (simp add: overage_variant_def within_limit_variant_def)

subsection \<open>Numerals read back\<close>

lemma digit_cases:
  "d < (10::nat) \<Longrightarrow>
   d = 0 \<or> d = 1 \<or> d = 2 \<or> d = 3 \<or> d = 4 \<or> d = 5 \<or> d = 6 \<or> d = 7 \<or> d = 8 \<or> d = 9"
  by arith

lemma digit_of_digit: "d < 10 \<Longrightarrow> digit_of (''0123456789'' ! d) = Some d"
  by (drule digit_cases) (elim disjE; simp add: digit_of_def)

lemma digit_not_zero: "0 < d \<Longrightarrow> d < 10 \<Longrightarrow> ''0123456789'' ! d \<noteq> CHR ''0''"
  by (drule digit_cases) (elim disjE; simp)

lemma read_digits_append:
  "read_digits (xs @ ys) acc =
     (case read_digits xs acc of None \<Rightarrow> None | Some a \<Rightarrow> read_digits ys a)"
  by (induction xs arbitrary: acc) (simp_all split: option.splits)

lemma read_digits_str_nat: "read_digits (str_nat n) 0 = Some n"
proof (induction n rule: str_nat.induct)
  case (1 n)
  show ?case
  proof (cases "n < 10")
    case True
    then show ?thesis by (subst str_nat.simps) (simp add: digit_of_digit)
  next
    case False
    then have "read_digits (str_nat (n div 10)) 0 = Some (n div 10)" by (rule "1.IH")
    with False show ?thesis
      by (subst str_nat.simps) (simp add: read_digits_append digit_of_digit)
  qed
qed

text \<open>The digits of a number begin with a digit, and with \<^verbatim>\<open>0\<close> only for the number 0.\<close>

lemma str_nat_head:
  "\<exists>c cs. str_nat n = c # cs \<and> digit_of c \<noteq> None \<and> (c = CHR ''0'' \<longrightarrow> n = 0 \<and> cs = [])"
proof (induction n rule: str_nat.induct)
  case (1 n)
  show ?case
  proof (cases "n < 10")
    case True
    then have eq: "str_nat n = [''0123456789'' ! n]" by (subst str_nat.simps) simp
    from True have d: "digit_of (''0123456789'' ! n) \<noteq> None" by (simp add: digit_of_digit)
    have "''0123456789'' ! n = CHR ''0'' \<longrightarrow> n = 0"
      using digit_not_zero [of n] True by blast
    with eq d show ?thesis by blast
  next
    case False
    then obtain c cs where h: "str_nat (n div 10) = c # cs" "digit_of c \<noteq> None"
      "c = CHR ''0'' \<longrightarrow> n div 10 = 0 \<and> cs = []"
      using "1.IH" by blast
    from False have "n div 10 \<noteq> 0" by simp
    with h have "c \<noteq> CHR ''0''" by blast
    moreover from False h(1)
    have "str_nat n = c # (cs @ [''0123456789'' ! (n mod 10)])"
      by (subst str_nat.simps) simp
    ultimately show ?thesis using h(2) by simp
  qed
qed

lemma read_nat_str_nat: "read_nat (str_nat n) = Some n"
proof -
  obtain c cs where h: "str_nat n = c # cs" "c = CHR ''0'' \<longrightarrow> n = 0 \<and> cs = []"
    using str_nat_head [of n] by blast
  have "read_digits (c # cs) 0 = Some n"
    using read_digits_str_nat [of n] by (simp only: h(1))
  with h(2) show ?thesis by (auto simp add: read_nat_def h(1) simp del: read_digits.simps)
qed

lemma str_nat_not_minus: "\<exists>c cs. str_nat n = c # cs \<and> c \<noteq> CHR ''-''"
proof -
  obtain c cs where h: "str_nat n = c # cs" "digit_of c \<noteq> None"
    using str_nat_head [of n] by blast
  have "digit_of (CHR ''-'') = None" by (simp add: digit_of_def)
  with h show ?thesis by auto
qed

lemma read_int_str_int: "read_int (str_int i) = Some i"
proof (cases "i < 0")
  case True
  then have "nat (- i) \<noteq> 0" by simp
  with True show ?thesis
    by (simp add: read_int_def str_int_def read_nat_str_nat)
next
  case False
  obtain c cs where h: "str_nat (nat i) = c # cs" "c \<noteq> CHR ''-''"
    using str_nat_not_minus [of "nat i"] by blast
  have "read_nat (c # cs) = Some (nat i)"
    using read_nat_str_nat [of "nat i"] by (simp only: h(1))
  with False h(2) show ?thesis
    by (simp add: read_int_def str_int_def h(1))
qed

subsection \<open>Fetching\<close>

text \<open>
  The two export scripts: a missing credential ends the fetch before the command runs; a
  non-zero exit and undecodable output both end in the empty list and a printed line.
\<close>

lemma fetch_users_missing_credential:
  "env_missing w ''OP_SERVICE_ACCOUNT_TOKEN'' \<Longrightarrow>
   fetch_users w =
     (JArr [], emit (Print ''Error: OP_SERVICE_ACCOUNT_TOKEN environment variable is not set.'') w)"
  by (simp add: fetch_users_def fetch_users_try_def)

lemma fetch_users_nonzero_exit:
  "\<not> env_missing w ''OP_SERVICE_ACCOUNT_TOKEN'' \<Longrightarrow> op_cli w = Exited rc out err \<Longrightarrow> rc \<noteq> 0 \<Longrightarrow>
   fetch_users w =
     (JArr [],
      emit (Print (''Error running 'op' command: '' @ err))
        (emit (RunOp op_argv) (emit (Print ''Fetching list of users from 1Password...'') w)))"
  by (simp add: fetch_users_def fetch_users_try_def subprocess_run_def Let_def)

lemma fetch_users_malformed:
  "\<not> env_missing w ''OP_SERVICE_ACCOUNT_TOKEN'' \<Longrightarrow> op_cli w = Exited 0 (Malformed msg) err \<Longrightarrow>
   fetch_users w =
     (JArr [],
      emit (Print (''Error: '' @ msg))
        (emit (RunOp op_argv) (emit (Print ''Fetching list of users from 1Password...'') w)))"
  by (simp add: fetch_users_def fetch_users_try_def subprocess_run_def json_loads_def Let_def)

text \<open>With no credential the export goes on with the empty list and writes nothing.\<close>

lemma main_export_missing_credential:
  "env_missing w ''OP_SERVICE_ACCOUNT_TOKEN'' \<Longrightarrow>
   main_export w =
     (None,
      w\<lparr>trace := trace w @
        [Print ''Error: OP_SERVICE_ACCOUNT_TOKEN environment variable is not set.'',
         Print ''No users found to export.'']\<rparr>)"
  by (simp add: main_export_def fetch_users_missing_credential export_to_csv_def emit_def)

text \<open>
  The license monitor: a non-zero exit ends in the empty list, undecodable output in a
  \<^verbatim>\<open>JSONDecodeError\<close> that leaves the function.
\<close>

lemma fetch_users_monitor_nonzero_exit:
  "op_cli w = Exited rc out err \<Longrightarrow> rc \<noteq> 0 \<Longrightarrow>
   fetch_users_monitor w =
     (Inr (JArr []),
      emit (Print (''Error running 'op' command: '' @ err))
        (emit (RunOp op_argv) (emit (Print ''Fetching list of users from 1Password...'') w)))"
  by (simp add: fetch_users_monitor_def fetch_users_monitor_try_def subprocess_run_def Let_def)

lemma fetch_users_monitor_malformed:
  "op_cli w = Exited 0 (Malformed msg) err \<Longrightarrow>
   fetch_users_monitor w =
     (Inl (PyExc JSONDecodeError msg),
      emit (RunOp op_argv) (emit (Print ''Fetching list of users from 1Password...'') w))"
  by (simp add: fetch_users_monitor_def fetch_users_monitor_try_def subprocess_run_def
      json_loads_def Let_def)

lemma trace_fetch_users_monitor:
  "\<exists>evs. trace (snd (fetch_users_monitor w)) = trace w @ evs \<and> list_all (\<lambda>e. \<not> is_post e) evs"
  by (auto simp add: fetch_users_monitor_def fetch_users_monitor_try_def Let_def is_post_def
      split: sum.splits raised.splits prod.splits)

subsection \<open>Exporting\<close>

lemma user_row_record:
  "user_record u \<Longrightarrow>
   user_row u =
     Inr (map JStr [field_text u ''id'', field_text u ''email'', field_text u ''name'', field_text u ''state''])"
  by (cases u)
    (auto simp add: user_record_def user_row_def field_text_def is_str_def
      split: option.splits json.splits)

lemma write_rows_records:
  "list_all user_record us \<Longrightarrow>
   write_rows us rows =
     (None,
      rows @ map (\<lambda>u. map JStr [field_text u ''id'', field_text u ''email'', field_text u ''name'',
                                 field_text u ''state'']) us)"
proof (induction us arbitrary: rows)
  case Nil
  then show ?case by simp
next
  case (Cons u us)
  then have "user_record u" and "list_all user_record us" by simp_all
  then show ?case using Cons.IH by (simp add: user_row_record)
qed

lemma export_try_records:
  "list_all user_record users \<Longrightarrow> csv_open w = None \<Longrightarrow>
   export_try (JArr users) w = (None, w\<lparr>csv_file := Some (map (map JStr) (csv_table users))\<rparr>)"
  by (simp add: export_try_def write_rows_records csv_table_def headers_def comp_def)

subsection \<open>Stripping\<close>



subsection \<open>The credential loader\<close>

lemma get_token_from_file_missing:
  "keyboard w = Some line \<Longrightarrow> files w (strip line) = None \<Longrightarrow>
   get_token_from_file w =
     (Some (PyExc FileNotFoundError (''Token file not found at '' @ strip line)),
      emit (Prompt ''Please enter the full path to your 1Password Service Account Token file: '') w)"
  by (simp add: get_token_from_file_def Let_def)



section \<open>The properties\<close>

text \<open>
  C1. For every list of user records, \<^verbatim>\<open>count_active_licenses\<close> returns (it does not raise)
  the number of records whose state is exactly \<^verbatim>\<open>ACTIVE\<close> or exactly
  \<^verbatim>\<open>RECOVERY_STARTED\<close>; for the empty list it returns 0.
\<close>

theorem count_active_licenses_counts:
  "list_all user_record users \<Longrightarrow>
   count_active_licenses (JArr users) = Inr (int (length (filter counts_as_used users))) \<and>
   count_active_licenses (JArr []) = Inr 0"
  by (simp add: count_active_licenses_def sum_active_records)

text \<open>
  Of the five sample records two count: \<^verbatim>\<open>ACTIVE\<close> and \<^verbatim>\<open>RECOVERY_STARTED\<close>, not the
  lower-case \<^verbatim>\<open>active\<close>, not \<^verbatim>\<open>SUSPENDED\<close>, not the record without a state.
\<close>

theorem count_active_licenses_counts_witness:
  "list_all user_record sample_users \<and> count_active_licenses (JArr sample_users) = Inr 2"
proof -
  have h: "list_all user_record sample_users"
    by (simp add: sample_users_def user_record_def is_str_def)
  have "length (filter counts_as_used sample_users) = 2"
    by (simp add: sample_users_def counts_as_used_def)
  with count_active_licenses_counts [OF h] h show ?thesis by simp
qed

text \<open>
  C2. For all integers used and total, the notifier posts the overage variant exactly when
  used exceeds total, and the numerals in that variant read as used, total and the
  positive difference used minus total; otherwise, equality included, it posts the
  within-limit variant, whose numerals read as used, total and the headroom total minus
  used. The two variants are never the same text. The message is posted first; what
  follows the POST is the line of success, the line of a \<^verbatim>\<open>RequestException\<close>, or any
  other exception of the POST leaving the notifier.
\<close>

theorem notifier_selects_variant:
  "(u > t \<longrightarrow>
      (\<exists>us ts ds. license_message u t = overage_variant us ts ds \<and>
         read_int us = Some u \<and> read_int ts = Some t \<and> read_int ds = Some (u - t)) \<and>
      0 < u - t) \<and>
   (u \<le> t \<longrightarrow>
      (\<exists>us ts hs. license_message u t = within_limit_variant us ts hs \<and>
         read_int us = Some u \<and> read_int ts = Some t \<and> read_int hs = Some (t - u)) \<and>
      0 \<le> t - u) \<and>
   overage_variant a b c \<noteq> within_limit_variant a' b' c' \<and>
   new_events w (snd (send_slack_notification u t w)) =
     HttpPost (environ w ''SLACK_WEBHOOK_URL'') (JObj [(''text'', JStr (license_message u t))]) #
     (case webhook w of
        None \<Rightarrow> [Print ''Slack notification sent successfully.'']
      | Some e \<Rightarrow>
          if exc_class e = RequestException
          then [Print (''Error sending Slack notification: '' @ str_exc e)]
          else []) \<and>
   fst (send_slack_notification u t w) =
     (case webhook w of
        None \<Rightarrow> None
      | Some e \<Rightarrow> if exc_class e = RequestException then None else Some e)"
proof -
  have over: "u > t \<longrightarrow>
      (\<exists>us ts ds. license_message u t = overage_variant us ts ds \<and>
         read_int us = Some u \<and> read_int ts = Some t \<and> read_int ds = Some (u - t)) \<and>
      0 < u - t"
  proof
    assume "u > t"
    then have "license_message u t = overage_variant (str_int u) (str_int t) (str_int (u - t))"
      by (simp add: license_message_def overage_variant_def)
    then have "\<exists>us ts ds. license_message u t = overage_variant us ts ds \<and>
         read_int us = Some u \<and> read_int ts = Some t \<and> read_int ds = Some (u - t)"
      using read_int_str_int by blast
    with \<open>u > t\<close> show "(\<exists>us ts ds. license_message u t = overage_variant us ts ds \<and>
         read_int us = Some u \<and> read_int ts = Some t \<and> read_int ds = Some (u - t)) \<and>
      0 < u - t" by simp
  qed
  have within: "u \<le> t \<longrightarrow>
      (\<exists>us ts hs. license_message u t = within_limit_variant us ts hs \<and>
         read_int us = Some u \<and> read_int ts = Some t \<and> read_int hs = Some (t - u)) \<and>
      0 \<le> t - u"
  proof
    assume "u \<le> t"
    then have "license_message u t = within_limit_variant (str_int u) (str_int t) (str_int (t - u))"
      by (simp add: license_message_def within_limit_variant_def)
    then have "\<exists>us ts hs. license_message u t = within_limit_variant us ts hs \<and>
         read_int us = Some u \<and> read_int ts = Some t \<and> read_int hs = Some (t - u)"
      using read_int_str_int by blast
    with \<open>u \<le> t\<close> show "(\<exists>us ts hs. license_message u t = within_limit_variant us ts hs \<and>
         read_int us = Some u \<and> read_int ts = Some t \<and> read_int hs = Some (t - u)) \<and>
      0 \<le> t - u" by simp
  qed
  have events: "new_events w (snd (send_slack_notification u t w)) =
     HttpPost (environ w ''SLACK_WEBHOOK_URL'') (JObj [(''text'', JStr (license_message u t))]) #
     (case webhook w of
        None \<Rightarrow> [Print ''Slack notification sent successfully.'']
      | Some e \<Rightarrow>
          if exc_class e = RequestException
          then [Print (''Error sending Slack notification: '' @ str_exc e)]
          else [])"
    by (rule new_events_append) (rule trace_send_slack_notification)
  from over within variants_differ [of a b c a' b' c'] events fst_send_slack_notification [of u t w]
  show ?thesis by blast
qed

text \<open>
  Five used of three, three of five, four of four; and a webhook call that raises a
  \<^verbatim>\<open>LocationParseError\<close>: the message is posted, nothing is printed, the exception leaves.
\<close>

theorem notifier_selects_variant_witness:
  "(5::int) > 3 \<and>
   license_message 5 3 =
     '':rotating_light::1password: *1Password License Alert* :1password::rotating_light:\<newline>\<newline>Used Licenses: 5\<newline>Total Licenses**: 3\<newline>Overage: 2\<newline>\<newline>*Immediate action required to resolve the overage.*'' \<and>
   license_message 5 3 = overage_variant ''5'' ''3'' ''2'' \<and>
   read_int ''5'' = Some 5 \<and> read_int ''3'' = Some 3 \<and> read_int ''2'' = Some (5 - 3) \<and>
   (3::int) \<le> 5 \<and> license_message 3 5 = within_limit_variant ''3'' ''5'' ''2'' \<and>
   read_int ''2'' = Some (5 - 3) \<and>
   (4::int) \<le> 4 \<and> license_message 4 4 = within_limit_variant ''4'' ''4'' ''0'' \<and>
   read_int ''4'' = Some 4 \<and> read_int ''0'' = Some (4 - 4) \<and>
   new_events bad_url_world (snd (send_slack_notification 5 3 bad_url_world)) =
     [HttpPost (Some ''https://['') (JObj [(''text'', JStr (license_message 5 3))])] \<and>
   fst (send_slack_notification 5 3 bad_url_world) =
     Some (PyExc LocationParseError ''Failed to parse: https://['')"
proof -
  have s: "str_int 5 = ''5''" "str_int 4 = ''4''" "str_int 3 = ''3''" "str_int 2 = ''2''"
    "str_int 0 = ''0''"
    by (simp_all add: str_int_def str_nat.simps)
  have m: "license_message 5 3 = overage_variant ''5'' ''3'' ''2''"
    "license_message 3 5 = within_limit_variant ''3'' ''5'' ''2''"
    "license_message 4 4 = within_limit_variant ''4'' ''4'' ''0''"
    by (simp_all add: license_message_def overage_variant_def within_limit_variant_def s)
  have r: "read_int ''5'' = Some 5" "read_int ''4'' = Some 4" "read_int ''3'' = Some 3"
    "read_int ''2'' = Some 2" "read_int ''0'' = Some 0"
    by (simp_all add: read_int_def read_nat_def digit_of_def)
  have e: "webhook bad_url_world = Some (PyExc LocationParseError ''Failed to parse: https://['')"
    "environ bad_url_world ''SLACK_WEBHOOK_URL'' = Some ''https://[''"
    by (simp_all add: bad_url_world_def)
  have t: "overage_variant ''5'' ''3'' ''2'' =
     '':rotating_light::1password: *1Password License Alert* :1password::rotating_light:\<newline>\<newline>Used Licenses: 5\<newline>Total Licenses**: 3\<newline>Overage: 2\<newline>\<newline>*Immediate action required to resolve the overage.*''"
    by (simp add: overage_variant_def)
  from notifier_selects_variant [of 5 3 _ _ _ _ _ _ bad_url_world]
    notifier_selects_variant [of 3 5] notifier_selects_variant [of 4 4]
  show ?thesis by (simp add: m r e t)
qed

text \<open>
  C3. In every script, when the \<^verbatim>\<open>op\<close> command exits non-zero or its output does not
  decode as JSON, \<^verbatim>\<open>fetch_users\<close> returns the empty list and prints the failure, and no
  exception reaches the caller. The license monitor does not do this for undecodable
  output: where the command exits with code 0 and prints nothing, its \<^verbatim>\<open>fetch_users\<close>
  raises the \<^verbatim>\<open>JSONDecodeError\<close>, which ends \<^verbatim>\<open>main\<close>; the \<^verbatim>\<open>fetch_users\<close> of the
  export scripts returns the empty list in the same world.
\<close>

theorem fetch_users_monitor_parse_failure:
  "fetch_users_monitor no_output_world =
     (Inl (PyExc JSONDecodeError ''Expecting value: line 1 column 1 (char 0)''),
      no_output_world\<lparr>trace := [Print ''Fetching list of users from 1Password...'', RunOp op_argv]\<rparr>) \<and>
   fst (main_monitor no_output_world) =
     Some (PyExc JSONDecodeError ''Expecting value: line 1 column 1 (char 0)'') \<and>
   fst (fetch_users no_output_world) = JArr []"
proof -
  have o: "op_cli no_output_world = Exited 0 (Malformed ''Expecting value: line 1 column 1 (char 0)'') []"
    by (simp add: no_output_world_def)
  have t: "trace no_output_world = []"
    by (simp add: no_output_world_def sample_world_def)
  have e: "\<not> env_missing no_output_world ''OP_SERVICE_ACCOUNT_TOKEN''"
    by (simp add: env_missing_def no_output_world_def sample_world_def)
  show ?thesis
    by (simp add: fetch_users_monitor_malformed [OF o] fetch_users_malformed [OF e o]
        main_monitor_def emit_def t)
qed

text \<open>
  C4. In every script, when \<^verbatim>\<open>OP_SERVICE_ACCOUNT_TOKEN\<close> is absent from the environment,
  \<^verbatim>\<open>fetch_users\<close> ends before the \<^verbatim>\<open>op\<close> command is run and reports the missing
  credential. The license monitor does not look at the environment: with no credential
  set its \<^verbatim>\<open>fetch_users\<close> runs the command and prints what the command wrote to standard
  error; the \<^verbatim>\<open>fetch_users\<close> of the export scripts, in the same world, prints that the
  credential is not set and runs nothing.
\<close>

theorem fetch_users_monitor_no_credential_check:
  "env_missing no_token_world ''OP_SERVICE_ACCOUNT_TOKEN'' \<and>
   new_events no_token_world (snd (fetch_users_monitor no_token_world)) =
     [Print ''Fetching list of users from 1Password...'',
      RunOp [''op'', ''user'', ''list'', ''--format'', ''json''],
      Print ''Error running 'op' command: [ERROR] not signed in''] \<and>
   new_events no_token_world (snd (fetch_users no_token_world)) =
     [Print ''Error: OP_SERVICE_ACCOUNT_TOKEN environment variable is not set.'']"
proof -
  have e: "env_missing no_token_world ''OP_SERVICE_ACCOUNT_TOKEN''"
    by (simp add: env_missing_def no_token_world_def sample_world_def)
  have o: "op_cli no_token_world =
      Exited 1 (Malformed ''Expecting value: line 1 column 1 (char 0)'') ''[ERROR] not signed in''"
    by (simp add: no_token_world_def)
  have r: "(1::int) \<noteq> 0" by simp
  show ?thesis
    by (simp add: e fetch_users_monitor_nonzero_exit [OF o r] fetch_users_missing_credential [OF e]
        op_argv_def)
qed

text \<open>
  C5. For the empty list \<^verbatim>\<open>export_to_csv\<close> opens and writes no file: the output file and
  every other file are as they were, and the one thing it does is print that there are no
  users to export.
\<close>

theorem export_to_csv_empty:
  "export_to_csv (JArr []) w = (None, emit (Print ''No users found to export.'') w) \<and>
   csv_file (snd (export_to_csv (JArr []) w)) = csv_file w \<and>
   files (snd (export_to_csv (JArr []) w)) = files w \<and>
   new_events w (snd (export_to_csv (JArr []) w)) = [Print ''No users found to export.'']"
  by (simp add: export_to_csv_def)

text \<open>
  C6. For every non-empty list of user records, when the output file can be opened,
  \<^verbatim>\<open>export_to_csv\<close> leaves in it the header row \<^verbatim>\<open>ID, Email, Name, State\<close> followed by
  one row per record, in the order of the list, holding the record's id, email, name and
  state, with the empty string for a field the record lacks.
\<close>

theorem export_to_csv_rows:
  assumes "users \<noteq> []" and "list_all user_record users" and "csv_open w = None"
  shows "fst (export_to_csv (JArr users) w) = None \<and>
    csv_file (snd (export_to_csv (JArr users) w)) = Some (map (map JStr) (csv_table users)) \<and>
    length (csv_table users) = 1 + length users \<and>
    new_events w (snd (export_to_csv (JArr users) w)) =
      [Print (''Exporting '' @ str_int (int (length users)) @ '' users to 1password_team_users.csv...''),
       Print ''Successfully exported users to 1password_team_users.csv.'']"
proof -
  have run: "export_to_csv (JArr users) w =
      (None, emit (Print (''Successfully exported users to '' @ OUTPUT_CSV @ ''.''))
               ((emit (Print (''Exporting '' @ str_int (int (length users)) @ '' users to '' @
                              OUTPUT_CSV @ ''...'')) w)
                  \<lparr>csv_file := Some (map (map JStr) (csv_table users))\<rparr>))"
    using assms by (simp add: export_to_csv_def export_try_records)
  show ?thesis
    by (simp add: run csv_table_def OUTPUT_CSV_def new_events_def)
qed

theorem export_to_csv_rows_witness:
  "sample_users \<noteq> [] \<and> list_all user_record sample_users \<and> csv_open sample_world = None \<and>
   csv_file (snd (export_to_csv (JArr sample_users) sample_world)) =
     Some (map (map JStr)
       [[''ID'', ''Email'', ''Name'', ''State''],
        [''1'', ''a@x.com'', ''A'', ''ACTIVE''],
        [''2'', '''', '''', ''active''],
        [''3'', '''', '''', ''RECOVERY_STARTED''],
        [''4'', '''', '''', ''SUSPENDED''],
        [''5'', '''', '''', '''']])"
proof -
  have h1: "sample_users \<noteq> []" by (simp add: sample_users_def)
  have h2: "list_all user_record sample_users"
    by (simp add: sample_users_def user_record_def is_str_def)
  have h3: "csv_open sample_world = None" by (simp add: sample_world_def)
  have t: "csv_table sample_users =
       [[''ID'', ''Email'', ''Name'', ''State''],
        [''1'', ''a@x.com'', ''A'', ''ACTIVE''],
        [''2'', '''', '''', ''active''],
        [''3'', '''', '''', ''RECOVERY_STARTED''],
        [''4'', '''', '''', ''SUSPENDED''],
        [''5'', '''', '''', '''']]"
    by (simp add: csv_table_def sample_users_def field_text_def)
  from export_to_csv_rows [OF h1 h2 h3] h1 h2 h3 show ?thesis
    unfolding t by simp
qed

text \<open>
  C7. In the interactive variant, when the path typed (stripped) is not an existing file,
  \<^verbatim>\<open>get_token_from_file\<close> raises \<^verbatim>\<open>FileNotFoundError\<close> and the run ends there: \<^verbatim>\<open>main\<close>
  prints the error, the \<^verbatim>\<open>op\<close> command is not run, and the output file and the
  environment are as they were.
\<close>

theorem missing_token_file_aborts:
  assumes "keyboard w = Some line" and "files w (strip line) = None"
  shows "fst (get_token_from_file w) =
      Some (PyExc FileNotFoundError (''Token file not found at '' @ strip line)) \<and>
    main_prompt w =
      w\<lparr>trace := trace w @
        [Prompt ''Please enter the full path to your 1Password Service Account Token file: '',
         Print (''An error occurred: Token file not found at '' @ strip line)]\<rparr> \<and>
    list_all (\<lambda>e. \<not> is_run e) (new_events w (main_prompt w)) \<and>
    csv_file (main_prompt w) = csv_file w \<and>
    environ (main_prompt w) = environ w"
proof -
  note g = get_token_from_file_missing [OF assms]
  have m: "main_prompt w =
      w\<lparr>trace := trace w @
        [Prompt ''Please enter the full path to your 1Password Service Account Token file: '',
         Print (''An error occurred: Token file not found at '' @ strip line)]\<rparr>"
    by (simp add: main_prompt_def main_prompt_try_def g emit_def)
  show ?thesis
    by (simp add: g m new_events_def is_run_def)
qed

theorem missing_token_file_aborts_witness:
  "keyboard typed_world = Some '' /tmp/token '' \<and>
   files typed_world (strip '' /tmp/token '') = None \<and>
   main_prompt typed_world =
     typed_world\<lparr>trace :=
        [Prompt ''Please enter the full path to your 1Password Service Account Token file: '',
         Print ''An error occurred: Token file not found at /tmp/token'']\<rparr>"
proof -
  have s: "strip '' /tmp/token '' = ''/tmp/token''" by (simp add: strip_def isspace_def)
  have h1: "keyboard typed_world = Some '' /tmp/token ''"
    by (simp add: typed_world_def)
  have h2: "files typed_world (strip '' /tmp/token '') = None"
    by (simp add: typed_world_def sample_world_def)
  have t: "trace typed_world = []" by (simp add: typed_world_def sample_world_def)
  from missing_token_file_aborts [OF h1 h2] h1 h2 show ?thesis
    by (simp add: s t)
qed




text \<open>
  C9. Whenever \<^verbatim>\<open>count_active_licenses\<close> returns on a list, the result lies between 0 and
  the length of the list; and a record without a \<^verbatim>\<open>state\<close> field is never counted: with
  or without it in the list, the outcome is the same.
\<close>

theorem count_active_licenses_bounds:
  "(count_active_licenses (JArr users) = Inr n \<longrightarrow> 0 \<le> n \<and> n \<le> int (length users)) \<and>
   (map_of kvs ''state'' = None \<longrightarrow>
      count_active_licenses (JArr (xs @ JObj kvs # ys)) = count_active_licenses (JArr (xs @ ys)))"
  using sum_active_bounds [of users 0 n] sum_active_skip [of kvs xs ys 0]
  by (simp add: count_active_licenses_def)

theorem count_active_licenses_bounds_witness:
  "count_active_licenses (JArr sample_users) = Inr 2 \<and> (0::int) \<le> 2 \<and>
   (2::int) \<le> int (length sample_users) \<and>
   map_of [(''id'', JStr ''5'')] ''state'' = None \<and>
   count_active_licenses (JArr (take 4 sample_users @ JObj [(''id'', JStr ''5'')] # [])) =
   count_active_licenses (JArr (take 4 sample_users @ []))"
proof -
  have c: "count_active_licenses (JArr sample_users) = Inr 2"
    by (simp add: count_active_licenses_def sample_users_def active_states_def)
  have m: "map_of [(''id'', JStr ''5'')] ''state'' = None" by simp
  from count_active_licenses_bounds [of sample_users 2 "[(''id'', JStr ''5'')]" "take 4 sample_users" "[]"] c m
  show ?thesis by simp
qed

text \<open>
  C10. In the license monitor, whenever \<^verbatim>\<open>fetch_users\<close> returns the empty list, \<^verbatim>\<open>main\<close>
  prints that no users were fetched and returns: nothing is counted and nothing is posted
  to the webhook. A POST happens only when \<^verbatim>\<open>fetch_users\<close> returned a non-empty list.
\<close>

theorem monitor_no_post_on_empty_fetch:
  "(fst (fetch_users_monitor w) = Inr (JArr []) \<longrightarrow>
      main_monitor w = (None, emit (Print ''No users fetched. Exiting.'') (snd (fetch_users_monitor w))) \<and>
      list_all (\<lambda>e. \<not> is_post e) (new_events w (snd (main_monitor w)))) \<and>
   (list_ex is_post (new_events w (snd (main_monitor w))) \<longrightarrow>
      (\<exists>u us. fst (fetch_users_monitor w) = Inr (JArr (u # us))))"
proof -
  obtain r w1 where f: "fetch_users_monitor w = (r, w1)" by (cases "fetch_users_monitor w")
  from trace_fetch_users_monitor [of w] f obtain evs
    where t: "trace w1 = trace w @ evs" and np: "list_all (\<lambda>e. \<not> is_post e) evs" by auto
  have a: "r = Inr (JArr []) \<Longrightarrow>
      main_monitor w = (None, emit (Print ''No users fetched. Exiting.'') w1) \<and>
      list_all (\<lambda>e. \<not> is_post e) (new_events w (snd (main_monitor w)))"
    using t np by (simp add: main_monitor_def f new_events_def is_post_def)
  have b: "\<exists>u us. r = Inr (JArr (u # us))"
    if p: "list_ex is_post (new_events w (snd (main_monitor w)))"
  proof (cases r)
    case (Inl e)
    with p t np show ?thesis
      by (simp add: main_monitor_def f new_events_def list_ex_iff list_all_iff)
  next
    case (Inr users)
    show ?thesis
    proof (cases "truthy users")
      case False
      with p t np Inr show ?thesis
        by (auto simp add: main_monitor_def f new_events_def list_ex_iff list_all_iff is_post_def)
    next
      case True
      show ?thesis
      proof (cases "count_active_licenses users")
        case (Inl e)
        with p t np Inr True show ?thesis
          by (simp add: main_monitor_def f new_events_def list_ex_iff list_all_iff)
      next
        case (Inr n)
        from count_truthy_list [OF Inr True] \<open>r = Inr users\<close> show ?thesis by simp
      qed
    qed
  qed
  show ?thesis unfolding f fst_conv snd_conv using a b by blast
qed

theorem monitor_no_post_on_empty_fetch_witness:
  "fst (fetch_users_monitor no_token_world) = Inr (JArr []) \<and>
   main_monitor no_token_world =
     (None, emit (Print ''No users fetched. Exiting.'') (snd (fetch_users_monitor no_token_world))) \<and>
   list_ex is_post (new_events sample_world (snd (main_monitor sample_world))) \<and>
   (\<exists>u us. fst (fetch_users_monitor sample_world) = Inr (JArr (u # us)))"
proof -
  have o: "op_cli no_token_world =
      Exited 1 (Malformed ''Expecting value: line 1 column 1 (char 0)'') ''[ERROR] not signed in''"
    by (simp add: no_token_world_def)
  have r: "(1::int) \<noteq> 0" by simp
  have h1: "fst (fetch_users_monitor no_token_world) = Inr (JArr [])"
    by (simp add: fetch_users_monitor_nonzero_exit [OF o r])
  have f: "fetch_users_monitor sample_world =
      (Inr (JArr sample_users),
       emit (RunOp op_argv) (emit (Print ''Fetching list of users from 1Password...'') sample_world))"
    by (simp add: fetch_users_monitor_def fetch_users_monitor_try_def subprocess_run_def
        json_loads_def Let_def sample_world_def)
  have c: "count_active_licenses (JArr sample_users) = Inr 2"
    by (simp add: count_active_licenses_def sample_users_def active_states_def)
  have n: "sample_users \<noteq> []" by (simp add: sample_users_def)
  have h2: "list_ex is_post (new_events sample_world (snd (main_monitor sample_world)))"
    by (simp add: main_monitor_def f c n new_events_def trace_send_slack_notification is_post_def)
  from monitor_no_post_on_empty_fetch [of no_token_world] monitor_no_post_on_empty_fetch [of sample_world]
    h1 h2
  show ?thesis by blast
qed

end
